theory Spec2Isabelle
  imports Main
begin

section \<open>Text primitives of the host language\<close>

text \<open>
  Text is a list of 8-bit characters, read as the code units U+0000..U+00FF; text with
  code units above that range is outside this model. In this range \<^verbatim>\<open>trim\<close> strips
  TAB, LF, VT, FF, CR, SPACE and NBSP. \<^verbatim>\<open>toUpperCase\<close> is modelled on the ASCII letters
  and leaves every other character as it is: in this range that agrees with the host
  language on whether the result is \<^verbatim>\<open>TRUE\<close> or \<^verbatim>\<open>FALSE\<close>, which is all the parser
  asks of it, though not on the value echoed in a diagnostic when it has accented
  letters.
\<close>

definition js_truthy :: "string option \<Rightarrow> bool" where
  \<comment> \<open>truthiness of an optional string: \<^verbatim>\<open>undefined\<close> and the empty string are falsy\<close>
  "js_truthy v = (case v of None \<Rightarrow> False | Some s \<Rightarrow> s \<noteq> [])"

definition object_truthy :: "'a list \<Rightarrow> bool" where
  \<comment> \<open>truthiness of an object reference: every object, also the empty one, is truthy\<close>
  "object_truthy obj = True"

definition startsWith :: "string \<Rightarrow> string \<Rightarrow> bool" where
  "startsWith s p = (take (length p) s = p)"

definition isWhiteSpace :: "char \<Rightarrow> bool" where
  \<comment> \<open>TAB, LF, VT, FF, CR, SPACE, NBSP\<close>
  "isWhiteSpace c =
     (c = CHR 0x09 \<or> c = CHR 0x0A \<or> c = CHR 0x0B \<or> c = CHR 0x0C \<or> c = CHR 0x0D
      \<or> c = CHR 0x20 \<or> c = CHR 0xA0)"

definition trim :: "string \<Rightarrow> string" where
  "trim s = rev (dropWhile isWhiteSpace (rev (dropWhile isWhiteSpace s)))"

definition upperChar :: "char \<Rightarrow> char" where
  "upperChar c =
     (let n = (of_char c :: nat) in if 97 \<le> n \<and> n \<le> 122 then char_of (n - 32) else c)"

definition toUpperCase :: "string \<Rightarrow> string" where
  "toUpperCase s = map upperChar s"

fun split_on :: "char \<Rightarrow> string \<Rightarrow> string list" where
  \<comment> \<open>\<^verbatim>\<open>s.split(c)\<close> for a one-character separator: the empty text gives one empty piece\<close>
  "split_on c [] = [[]]"
| "split_on c (x # xs) =
     (if x = c then [] # split_on c xs
      else (case split_on c xs of
              [] \<Rightarrow> [[x]]
            | p # ps \<Rightarrow> (x # p) # ps))"

fun join_with :: "char \<Rightarrow> string list \<Rightarrow> string" where
  "join_with c [] = []"
| "join_with c [p] = p"
| "join_with c (p # q # ps) = p @ c # join_with c (q # ps)"

definition index_opt :: "'a list \<Rightarrow> nat \<Rightarrow> 'a option" where
  \<comment> \<open>\<^verbatim>\<open>xs[i]\<close>: \<^verbatim>\<open>undefined\<close> out of range\<close>
  "index_opt xs i = (if i < length xs then Some (xs ! i) else None)"

definition quoted :: "string \<Rightarrow> string" where
  \<comment> \<open>the text between two apostrophes\<close>
  "quoted s = CHR 0x27 # s @ [CHR 0x27]"

definition dquoted :: "string \<Rightarrow> string" where
  \<comment> \<open>the text between two double quotes\<close>
  "dquoted s = CHR 0x22 # s @ [CHR 0x22]"

section \<open>Data model of the orchestrator (src/lib/parser.ts, class SQON)\<close>

type_synonym 'a js_object = "(string \<times> 'a) list"

record parse_error =
  line :: "nat option"
  message :: string

record file_rules =
  Strict :: bool

datatype error = InvalidConfiguration | StrictModeEnabled | InvalidSectionParsing

record parser_config =
  cfg_filePath :: "string option"
  cfg_section :: "string option"
  cfg_fileContent :: "string option"

record ('s, 'v, 'd) sqon =
  section' :: "string option"
  filePath :: "string option"
  fileContent :: "string option"
  lines :: "string list"
  position :: nat
  parsedSchema :: "'s js_object"
  validations :: "'v js_object"
  records :: "'d list"
  MAX_ERRORS :: nat
  allowedTypes :: "string list"
  validationKeywords :: "string list js_object"
  errors :: "parse_error list"
  sectionOrder :: "string list"
  fileRules :: file_rules

record ('s, 'v, 'd) parsed_result =
  res_fileRules :: file_rules
  res_schema :: "'s js_object"
  res_validations :: "'v js_object"
  res_records :: "'d list"
  res_errors :: "parse_error list"

text \<open>
  The three section parsers (\<^verbatim>\<open>./extends/schema\<close>, \<^verbatim>\<open>./extends/parseValidation\<close>,
  \<^verbatim>\<open>./extends/parseRecords\<close>) are imported by the orchestrator and are not part of the
  sources at hand. They are parameters of the model: total functions from what the
  orchestrator hands them to the result object it reads back.
\<close>

record 's schema_result =
  sr_parsedSchema :: "'s js_object"
  sr_errors :: "parse_error list"
  sr_lines :: "string list"
  sr_position :: nat

record 'v validation_result =
  vr_validations :: "'v js_object"
  vr_errors :: "parse_error list"
  vr_lines :: "string list"
  vr_position :: nat

record 'd records_result =
  rr_records :: "'d list"
  rr_errors :: "parse_error list"
  rr_position :: nat

record ('s, 'v, 'd) sub_parsers =
  SQONSchema :: "string list \<Rightarrow> nat \<Rightarrow> string list \<Rightarrow> 's schema_result"
  SQONValidation ::
    "string list \<Rightarrow> nat \<Rightarrow> 's js_object \<Rightarrow> string list js_object \<Rightarrow> 'v validation_result"
  SQONRecords :: "string list \<Rightarrow> nat \<Rightarrow> nat \<Rightarrow> 'd records_result"

datatype ('s, 'v, 'd) outcome =
    Continue "('s, 'v, 'd) sqon"
  | Return "('s, 'v, 'd) parsed_result"
  | Throw error

section \<open>The constructor and its two constant tables\<close>

definition allowedTypes_table :: "string list" where
  "allowedTypes_table =
     [''Number'', ''String'', ''Binary'', ''Date'', ''Boolean'', ''Uint8Array'', ''Binary'',
      ''Object'', ''Any[]'', ''StringArray'', ''ObjectArray'', ''NumberArray'',
      ''Number[]'', ''String[]'', ''Object[]'', ''Null'', ''undefined'', ''Array'',
      ''[]'', ''Any'', ''AnyArray'']"

definition validationKeywords_table :: "string list js_object" where
  "validationKeywords_table =
     [(''custom'', [''Any'']),
      (''default'', [''Any'']),
      (''isNull'', [''Any'']),
      (''min'', [''Number'', ''NumberArray'', ''Uint8Array'']),
      (''max'', [''Number'', ''NumberArray'', ''Uint8Array'']),
      (''minLength'', [''String'', ''StringArray'', ''ObjectArray'', ''Array'', ''Object'',
                      ''NumberArray'', ''Uint8Array'']),
      (''maxLength'', [''String'', ''StringArray'', ''ObjectArray'', ''Array'', ''Object'',
                      ''NumberArray'', ''Uint8Array'']),
      (''maxSize'', [''Binary'', ''Array'', ''StringArray'', ''NumberArray'', ''ObjectArray'',
                    ''Object'', ''Uint8Array'']),
      (''required'', [''Any'']),
      (''isEqualTo'', [''Any'']),
      (''isDate'', [''Date'']),
      (''isPositive'', [''Number'', ''NumberArray'', ''Uint8Array'']),
      (''isNegative'', [''Number'', ''NumberArray'', ''Uint8Array'']),
      (''isUnique'', [''Any'']),
      (''hasProperties'', [''Object'', ''ObjectArray'']),
      (''notNull'', [''Any'']),
      (''pattern'', [''String'']),
      (''isEmail'', [''String'', ''StringArray'']),
      (''isURL'', [''String'']),
      (''isAlpha'', [''String'']),
      (''isNumeric'', [''String'']),
      (''isAlphanumeric'', [''String'']),
      (''isInteger'', [''Number'']),
      (''isFloat'', [''Number'']),
      (''isBoolean'', [''Boolean'']),
      (''isIP'', [''String'']),
      (''enum'', [''Any'']),
      (''minDate'', [''Date'']),
      (''maxDate'', [''Date'']),
      (''matchesField'', [''Any'']),
      (''trim'', [''String'']),
      (''lowercase'', [''String'']),
      (''uppercase'', [''String''])]"

definition fresh :: "parser_config \<Rightarrow> ('s, 'v, 'd) sqon" where
  \<comment> \<open>the field initialisers of the constructor\<close>
  "fresh cfg =
     \<lparr> section' = cfg_section cfg,
       filePath = cfg_filePath cfg,
       fileContent = cfg_fileContent cfg,
       lines = [],
       position = 0,
       parsedSchema = [],
       validations = [],
       records = [],
       MAX_ERRORS = 50,
       allowedTypes = allowedTypes_table,
       validationKeywords = validationKeywords_table,
       errors = [],
       sectionOrder = [],
       fileRules = \<lparr> Strict = False \<rparr> \<rparr>"

definition constructor :: "parser_config \<Rightarrow> error + ('s, 'v, 'd) sqon" where
  "constructor cfg =
     (if \<not> js_truthy (cfg_filePath cfg) \<and> \<not> js_truthy (cfg_fileContent cfg)
      then Inl InvalidConfiguration
      else Inr (fresh cfg))"

section \<open>Section order, delegation to the section parsers\<close>

definition push_error ::
  "nat option \<Rightarrow> string \<Rightarrow> ('s, 'v, 'd) sqon \<Rightarrow> ('s, 'v, 'd) sqon" where
  "push_error l m st = st\<lparr> errors := errors st @ [\<lparr> line = l, message = m \<rparr>] \<rparr>"

definition checkSectionOrder :: "string \<Rightarrow> ('s, 'v, 'd) sqon \<Rightarrow> ('s, 'v, 'd) sqon" where
  "checkSectionOrder sec st =
     (if sec = ''@schema'' then
        (let st1 = (if ''@schema'' \<in> set (sectionOrder st)
                    then push_error (Some (position st + 1))
                           (quoted ''@schema'' @ '' is already opened but not closed.'') st
                    else st)
         in st1\<lparr> sectionOrder := sectionOrder st1 @ [sec] \<rparr>)
      else if sec = ''@validations'' then
        (let st1 = (if ''@schema'' \<notin> set (sectionOrder st)
                    then push_error (Some (position st + 1))
                           (quoted ''@validations'' @ '' must come after ''
                              @ quoted ''@schema'' @ ''.'') st
                    else st);
             st2 = (if ''@validations'' \<in> set (sectionOrder st1)
                    then push_error (Some (position st1 + 1))
                           (quoted ''@validations'' @ '' is already opened but not closed.'') st1
                    else st1)
         in st2\<lparr> sectionOrder := sectionOrder st2 @ [sec] \<rparr>)
      else if sec = ''@records'' then
        (let st1 = (if ''@schema'' \<notin> set (sectionOrder st)
                    then push_error (Some (position st + 1))
                           (quoted ''@records'' @ '' must come after ''
                              @ quoted ''@schema'' @ ''.'') st
                    else st);
             st2 = (if ''@validations'' \<in> set (sectionOrder st1)
                       \<and> ''@validations'' \<notin> set (sectionOrder st1)
                    then push_error (Some (position st1 + 1))
                           (quoted ''@records'' @ '' must come after ''
                              @ quoted ''@validations'' @ ''.'') st1
                    else st1);
             st3 = (if ''@records'' \<in> set (sectionOrder st2)
                    then push_error (Some (position st2 + 1))
                           (quoted ''@records'' @ '' is already opened but not closed.'') st2
                    else st2)
         in st3\<lparr> sectionOrder := sectionOrder st3 @ [sec] \<rparr>)
      else st)"

definition parseSchema ::
  "('s, 'v, 'd) sub_parsers \<Rightarrow> ('s, 'v, 'd) sqon \<Rightarrow> ('s, 'v, 'd) sqon" where
  "parseSchema P st =
     (let results = SQONSchema P (lines st) (position st) (allowedTypes st)
      in st\<lparr> parsedSchema := sr_parsedSchema results,
              errors := errors st @ take (MAX_ERRORS st) (sr_errors results),
              lines := sr_lines results,
              position := sr_position results \<rparr>)"

definition parseValidation ::
  "('s, 'v, 'd) sub_parsers \<Rightarrow> ('s, 'v, 'd) sqon \<Rightarrow> ('s, 'v, 'd) sqon" where
  "parseValidation P st =
     (let results = SQONValidation P (lines st) (position st) (parsedSchema st)
                      (validationKeywords st)
      in st\<lparr> validations := vr_validations results,
              errors := errors st @ take (MAX_ERRORS st) (vr_errors results),
              lines := vr_lines results,
              position := vr_position results \<rparr>)"

definition parseRecords ::
  "('s, 'v, 'd) sub_parsers \<Rightarrow> ('s, 'v, 'd) sqon \<Rightarrow> ('s, 'v, 'd) sqon" where
  "parseRecords P st =
     (let results = SQONRecords P (lines st) (position st) 500
      in st\<lparr> errors := errors st @ take (MAX_ERRORS st) (rr_errors results),
              records := rr_records results,
              position := rr_position results \<rparr>)"

section \<open>The top-level scan (parseLines)\<close>

definition result_of :: "('s, 'v, 'd) sqon \<Rightarrow> ('s, 'v, 'd) parsed_result" where
  "result_of st =
     \<lparr> res_fileRules = fileRules st, res_schema = parsedSchema st,
       res_validations = validations st, res_records = records st,
       res_errors = errors st \<rparr>"

definition strictValue :: "string \<Rightarrow> string option" where
  \<comment> \<open>\<^verbatim>\<open>line.split('=')[1]?.trim().toUpperCase()\<close>\<close>
  "strictValue ln = map_option (\<lambda>v. toUpperCase (trim v)) (index_opt (split_on CHR ''='' ln) 1)"

definition show_optional :: "string option \<Rightarrow> string" where
  \<comment> \<open>an optional string inside a template literal\<close>
  "show_optional v = (case v of None \<Rightarrow> ''undefined'' | Some s \<Rightarrow> s)"

definition advance :: "('s, 'v, 'd) sqon \<Rightarrow> ('s, 'v, 'd) sqon" where
  \<comment> \<open>\<^verbatim>\<open>this.position++\<close>\<close>
  "advance st = st\<lparr> position := position st + 1 \<rparr>"

definition step :: "('s, 'v, 'd) sub_parsers \<Rightarrow> ('s, 'v, 'd) sqon \<Rightarrow> ('s, 'v, 'd) outcome" where
  \<comment> \<open>one turn of the loop of parseLines, entered with \<open>position st < length (lines st)\<close>\<close>
  "step P st =
     (let ln = lines st ! position st in
      if startsWith ln ''*STRICT='' then
        (let sv = strictValue ln in
         if sv = Some ''TRUE'' then
           (if js_truthy (section' st) then Throw StrictModeEnabled
            else Continue (advance (st\<lparr> fileRules := (fileRules st)\<lparr> Strict := True \<rparr> \<rparr>)))
         else if sv = Some ''FALSE'' then
           Continue (advance (st\<lparr> fileRules := (fileRules st)\<lparr> Strict := False \<rparr> \<rparr>))
         else
           Continue (advance (push_error (Some (position st + 1))
             (''Invalid *STRICT value: '' @ show_optional sv @ ''. Expected TRUE or FALSE.'') st)))
      else if ln = ''@schema'' then
        (if section' st = Some ''schema'' then
           (let st1 = parseSchema P (advance st)
            in Return \<lparr> res_fileRules = fileRules st1, res_schema = parsedSchema st1,
                        res_validations = [], res_records = [], res_errors = errors st1 \<rparr>)
         else if \<not> js_truthy (section' st) then
           Continue (advance (parseSchema P (advance (checkSectionOrder ''@schema'' st))))
         else Continue (advance st))
      else if ln = ''@validations'' then
        (if section' st = Some ''schema'' then
           (let st1 = parseValidation P (advance st)
            in Return \<lparr> res_fileRules = fileRules st1, res_schema = [],
                        res_validations = validations st1, res_records = [],
                        res_errors = errors st1 \<rparr>)
         else if \<not> js_truthy (section' st) then
           Continue (advance (parseValidation P (advance (checkSectionOrder ''@validations'' st))))
         else Continue (advance st))
      else if ln = ''@records'' then
        (if section' st = Some ''records'' then
           (let st1 = parseRecords P (advance st)
            in Return \<lparr> res_fileRules = fileRules st1, res_schema = [],
                        res_validations = [], res_records = records st1,
                        res_errors = errors st1 \<rparr>)
         else if \<not> js_truthy (section' st) then
           Continue (advance (parseRecords P (advance (checkSectionOrder ''@records'' st))))
         else Continue (advance st))
      else if ln = ''@end'' then
        (if \<not> js_truthy (section' st) then
           (if sectionOrder st = [] then
              Continue (advance (push_error (Some (position st + 1))
                (''Unexpected '' @ quoted ''@end'' @ '' without an open section.'') st))
            else
              (let lastSection = last (sectionOrder st);
                   st1 = st\<lparr> sectionOrder := butlast (sectionOrder st) \<rparr>
               in if lastSection \<noteq> ''@schema'' \<and> lastSection \<noteq> ''@validations''
                     \<and> lastSection \<noteq> ''@records''
                  then Continue (advance (push_error (Some (position st1 + 1))
                         (''Unexpected '' @ quoted ''@end'' @ '' for section: '' @ lastSection
                            @ ''.'') st1))
                  else Continue (advance st1)))
         else Continue (advance st))
      else
        (if js_truthy (section' st) \<and> section' st \<noteq> Some ''records''
            \<and> section' st \<noteq> Some ''schema''
         then Throw InvalidSectionParsing
         else if \<not> js_truthy (section' st) then
           Continue (advance (push_error (Some (position st + 1))
             (''Unknown section or command: '' @ dquoted ln) st))
         else Continue (advance st)))"

definition finish :: "('s, 'v, 'd) sqon \<Rightarrow> ('s, 'v, 'd) parsed_result" where
  \<comment> \<open>what parseLines does once the cursor has left the line buffer\<close>
  "finish st =
     (if \<not> js_truthy (section' st) then
        (let st1 = (if \<not> object_truthy (parsedSchema st)
                    then push_error None (''Missing required section: '' @ quoted ''@schema'') st
                    else st);
             st2 = (if length (records st1) = 0
                    then push_error None (''Missing required section: '' @ quoted ''@records'') st1
                    else st1)
         in result_of st2)
      else result_of st)"

text \<open>
  The loop ends when the cursor leaves the buffer, when a focused section returns, or
  when an error is thrown. A section parser may hand back any cursor, so the loop need
  not end: \<open>None\<close> is the run that never returns.
\<close>

partial_function (option) parseLines ::
  "('s, 'v, 'd) sub_parsers \<Rightarrow> ('s, 'v, 'd) sqon \<Rightarrow> (error + ('s, 'v, 'd) parsed_result) option"
where
  "parseLines P st =
     (if position st < length (lines st) then
        (case step P st of
           Continue st' \<Rightarrow> parseLines P st'
         | Return r \<Rightarrow> Some (Inr r)
         | Throw e \<Rightarrow> Some (Inl e))
      else Some (Inr (finish st)))"

declare parseLines.simps [code]

definition split_lines :: "string \<Rightarrow> string list" where
  \<comment> \<open>\<^verbatim>\<open>text.split(/\r?\n/)\<close>: cut at every LF, a CR just before the cut goes with it\<close>
  "split_lines content =
     (let pieces = split_on (CHR 0x0A) content;
          chomp = (\<lambda>p. if p \<noteq> [] \<and> last p = CHR 0x0D then butlast p else p)
      in map chomp (butlast pieces) @ [last pieces])"

definition parse ::
  "('s, 'v, 'd) sub_parsers \<Rightarrow> string list \<Rightarrow> ('s, 'v, 'd) sqon
     \<Rightarrow> (error + ('s, 'v, 'd) parsed_result) option" where
  \<comment> \<open>\<^verbatim>\<open>parse()\<close> without the metadata block it adds to the result; \<open>fileLines\<close> are the
      lines the line reader yields for the file at \<open>filePath\<close>, read only when no inline
      content was given\<close>
  "parse P fileLines st =
     (let st1 =
        (case fileContent st of
           Some content \<Rightarrow>
             if content \<noteq> []
             then st\<lparr> lines := filter (\<lambda>l. length l > 0) (map trim (split_lines content)) \<rparr>
             else if js_truthy (filePath st)
             then st\<lparr> lines := lines st @ filter (\<lambda>l. l \<noteq> []) (map trim fileLines) \<rparr>
             else st
         | None \<Rightarrow>
             if js_truthy (filePath st)
             then st\<lparr> lines := lines st @ filter (\<lambda>l. l \<noteq> []) (map trim fileLines) \<rparr>
             else st)
      in parseLines P st1)"

definition file_config :: "string option \<Rightarrow> parser_config" where
  \<comment> \<open>the configuration \<^verbatim>\<open>{filePath: 'data.sqon', section}\<close>\<close>
  "file_config sec =
     \<lparr> cfg_filePath = Some ''data.sqon'', cfg_section = sec, cfg_fileContent = None \<rparr>"

definition parse_file ::
  "('s, 'v, 'd) sub_parsers \<Rightarrow> string option \<Rightarrow> string list
     \<Rightarrow> (error + ('s, 'v, 'd) parsed_result) option" where
  \<comment> \<open>a whole request: \<^verbatim>\<open>new SQON({filePath, section}).parse()\<close> on a file with the given lines\<close>
  "parse_file P sec fileLines =
     (case constructor (file_config sec) of
        Inl e \<Rightarrow> Some (Inl e)
      | Inr st \<Rightarrow> parse P fileLines st)"

definition loaded :: "string option \<Rightarrow> string list \<Rightarrow> (unit, unit, unit) sqon" where
  \<comment> \<open>the parser built from \<open>file_config sec\<close>, its buffer holding the given lines\<close>
  "loaded sec ls = (fresh (file_config sec))\<lparr> lines := ls \<rparr>"

section \<open>Renumbering of the records (redoc)\<close>

definition isDigit :: "char \<Rightarrow> bool" where
  \<comment> \<open>the class \<^verbatim>\<open>\d\<close>\<close>
  "isDigit c = (let n = (of_char c :: nat) in 48 \<le> n \<and> n \<le> 57)"

definition digit_char :: "nat \<Rightarrow> char" where
  "digit_char d = ''0123456789'' ! d"

fun show_nat :: "nat \<Rightarrow> string" where
  \<comment> \<open>a count inside a template literal: its decimal digits\<close>
  "show_nat n =
     (if n < 10 then [digit_char n] else show_nat (n div 10) @ [digit_char (n mod 10)])"

definition replace_marker :: "string \<Rightarrow> nat \<Rightarrow> string" where
  \<comment> \<open>\<^verbatim>\<open>line.replace(/^#\d+/, `#${newDocNumber}`)\<close>\<close>
  "replace_marker ln n =
     (case ln of
        [] \<Rightarrow> ln
      | c # rest \<Rightarrow>
          if c = CHR ''#'' \<and> takeWhile isDigit rest \<noteq> []
          then CHR ''#'' # show_nat n @ dropWhile isDigit rest
          else ln)"

fun renumber :: "bool \<Rightarrow> nat \<Rightarrow> string list \<Rightarrow> string list" where
  \<comment> \<open>the loop over the lines, from the flag \<open>inRecordsSection\<close> and the count
      \<open>newDocNumber\<close> it has reached; the result is what it appends to \<open>updatedLines\<close>\<close>
  "renumber inRecordsSection newDocNumber [] = []"
| "renumber inRecordsSection newDocNumber (ln # rest) =
     (if trim ln = ''@records'' then ln # renumber True newDocNumber rest
      else if trim ln = ''@end'' \<and> inRecordsSection then ln # renumber False newDocNumber rest
      else if inRecordsSection \<and> startsWith (trim ln) ''#''
      then replace_marker ln newDocNumber # renumber inRecordsSection (newDocNumber + 1) rest
      else ln # renumber inRecordsSection newDocNumber rest)"

definition updatedContent :: "string \<Rightarrow> string" where
  "updatedContent content =
     join_with (CHR 0x0A) (renumber False 0 (split_on (CHR 0x0A) content))"

datatype redoc_outcome =
    Returned string  \<comment> \<open>the call resolves to the updated text\<close>
  | Written string   \<comment> \<open>the updated text replaces the file at \<open>filePath\<close>\<close>

definition redoc :: "string option \<Rightarrow> string \<Rightarrow> redoc_outcome" where
  \<comment> \<open>\<open>fileText\<close> is what reading the file at \<open>filePath\<close> gives; it is read only when no
      content is passed. A read or write that fails, also for want of a path, is not
      modelled.\<close>
  "redoc content fileText =
     (let fileContent = (case content of Some c \<Rightarrow> c | None \<Rightarrow> fileText);
          updated = updatedContent fileContent
      in if js_truthy content then Returned updated else Written updated)"

section \<open>The format description, for comparison with the tables of the constructor\<close>

definition spec_allowedTypes :: "string list" where
  \<comment> \<open>the vocabulary as the format description lists it\<close>
  "spec_allowedTypes =
     [''Number'', ''String'', ''Binary'', ''Date'', ''Boolean'', ''byte-array'', ''Object'',
      ''Any[]'', ''StringArray'', ''ObjectArray'', ''NumberArray'', ''Number[]'', ''String[]'',
      ''Object[]'', ''Null'', ''undefined'', ''Array'', ''[]'', ''Any'', ''AnyArray'']"

definition spec_matrix :: "string list js_object" where
  \<comment> \<open>the compatibility matrix as the format description groups it\<close>
  "spec_matrix =
     map (\<lambda>k. (k, [''Any'']))
       [''custom'', ''default'', ''isNull'', ''required'', ''isEqualTo'', ''isUnique'',
        ''notNull'', ''enum'', ''matchesField'']
     @ map (\<lambda>k. (k, [''Number'', ''NumberArray'', ''byte-array'']))
       [''min'', ''max'', ''isPositive'', ''isNegative'']
     @ map (\<lambda>k. (k, [''String'', ''StringArray'', ''ObjectArray'', ''Array'', ''Object'',
                      ''NumberArray'', ''byte-array'']))
       [''minLength'', ''maxLength'']
     @ [(''maxSize'', [''Binary'', ''Array'', ''StringArray'', ''NumberArray'', ''ObjectArray'',
                      ''Object'', ''byte-array''])]
     @ map (\<lambda>k. (k, [''Date''])) [''isDate'', ''minDate'', ''maxDate'']
     @ [(''hasProperties'', [''Object'', ''ObjectArray''])]
     @ map (\<lambda>k. (k, [''String'']))
       [''pattern'', ''isURL'', ''isAlpha'', ''isNumeric'', ''isAlphanumeric'', ''isIP'',
        ''trim'', ''lowercase'', ''uppercase'']
     @ [(''isEmail'', [''String'', ''StringArray''])]
     @ map (\<lambda>k. (k, [''Number''])) [''isInteger'', ''isFloat'']
     @ [(''isBoolean'', [''Boolean''])]"

definition as_in_code :: "string \<Rightarrow> string" where
  \<comment> \<open>the one token the code spells differently\<close>
  "as_in_code t = (if t = ''byte-array'' then ''Uint8Array'' else t)"

section \<open>Stand-ins for the section parsers\<close>

text \<open>
  Modelled from the spec: the section parsers SQONSchema, SQONValidation and SQONRecords
  (\<^verbatim>\<open>./extends/*\<close>) are missing from the sources. Of their contract (sections 4.2 to
  4.4: scan forward to the section terminator and return the cursor positioned just
  past it) the stand-in keeps the cursor, which is all the top-level scan depends on;
  it reports no fields, rules, documents or errors. With \<open>past = False\<close> the cursor
  stays on the terminator instead, which the increment of the top-level loop then
  skips. The stand-ins serve the closed examples only; every general statement below
  holds for arbitrary section parsers.
\<close>

definition terminator_index :: "string list \<Rightarrow> nat \<Rightarrow> nat" where
  "terminator_index ls p = p + length (takeWhile (\<lambda>l. l \<noteq> ''@end'') (drop p ls))"

definition section_cursor :: "bool \<Rightarrow> string list \<Rightarrow> nat \<Rightarrow> nat" where
  "section_cursor past ls p =
     (let i = terminator_index ls p in if past \<and> i < length ls then i + 1 else i)"

definition section_stub :: "bool \<Rightarrow> (unit, unit, unit) sub_parsers" where
  \<comment> \<open>Modelled from the spec: the three missing section parsers, reduced to the cursor
      they return\<close>
  "section_stub past =
     \<lparr> SQONSchema = (\<lambda>ls p types.
         \<lparr> sr_parsedSchema = [], sr_errors = [], sr_lines = ls,
           sr_position = section_cursor past ls p \<rparr>),
       SQONValidation = (\<lambda>ls p schema keywords.
         \<lparr> vr_validations = [], vr_errors = [], vr_lines = ls,
           vr_position = section_cursor past ls p \<rparr>),
       SQONRecords = (\<lambda>ls p cap.
         \<lparr> rr_records = [], rr_errors = [], rr_position = section_cursor past ls p \<rparr>) \<rparr>"

definition noisy_stub :: "nat \<Rightarrow> (unit, unit, unit) sub_parsers" where
  \<comment> \<open>section parsers that report \<open>n\<close> errors each and leave the cursor where it is\<close>
  "noisy_stub n =
     \<lparr> SQONSchema = (\<lambda>ls p types.
         \<lparr> sr_parsedSchema = [],
           sr_errors = replicate n \<lparr> line = Some p, message = ''bad field'' \<rparr>,
           sr_lines = ls, sr_position = p \<rparr>),
       SQONValidation = (\<lambda>ls p schema keywords.
         \<lparr> vr_validations = [],
           vr_errors = replicate n \<lparr> line = Some p, message = ''bad rule'' \<rparr>,
           vr_lines = ls, vr_position = p \<rparr>),
       SQONRecords = (\<lambda>ls p cap.
         \<lparr> rr_records = [],
           rr_errors = replicate n \<lparr> line = Some p, message = ''bad record'' \<rparr>,
           rr_position = p \<rparr>) \<rparr>"

section \<open>Unfolding rules\<close>

declare show_nat.simps [simp del]

lemmas text_defs = startsWith_def strictValue_def index_opt_def trim_def toUpperCase_def
  upperChar_def isWhiteSpace_def quoted_def dquoted_def show_optional_def js_truthy_def

lemmas run_defs = parse_file_def file_config_def loaded_def parse_def constructor_def fresh_def
  step_def advance_def push_error_def checkSectionOrder_def parseSchema_def
  parseValidation_def parseRecords_def finish_def result_of_def object_truthy_def
  section_stub_def section_cursor_def terminator_index_def noisy_stub_def Let_def

section \<open>The error cap of a section\<close>

lemma constructor_MAX_ERRORS: "constructor cfg = Inr st \<Longrightarrow> MAX_ERRORS st = 50"
  by (auto simp: constructor_def fresh_def split: if_splits)

lemma step_MAX_ERRORS: "step P st = Continue st' \<Longrightarrow> MAX_ERRORS st' = MAX_ERRORS st"
  by (auto simp: step_def advance_def push_error_def checkSectionOrder_def parseSchema_def
      parseValidation_def parseRecords_def Let_def split: if_splits)

text \<open>
  C9. The constructor sets the cap to 50 and no turn of the scan changes it (the two
  lemmas above). Under that cap each delegation to a section parser (schema,
  validations, records) appends to the global error list the first 50 errors the
  section parser reports and drops the rest, so one section never adds more than 50.
\<close>

theorem section_errors_capped:
  assumes "MAX_ERRORS st = 50"
  shows "errors (parseSchema P st)
           = errors st @ take 50 (sr_errors (SQONSchema P (lines st) (position st) (allowedTypes st)))
       \<and> errors (parseValidation P st)
           = errors st @ take 50 (vr_errors (SQONValidation P (lines st) (position st)
                                     (parsedSchema st) (validationKeywords st)))
       \<and> errors (parseRecords P st)
           = errors st @ take 50 (rr_errors (SQONRecords P (lines st) (position st) 500))
       \<and> length (errors (parseSchema P st)) \<le> length (errors st) + 50
       \<and> length (errors (parseValidation P st)) \<le> length (errors st) + 50
       \<and> length (errors (parseRecords P st)) \<le> length (errors st) + 50"
  using assms by (simp add: parseSchema_def parseValidation_def parseRecords_def Let_def)

theorem section_errors_capped_witness:
  "MAX_ERRORS (loaded None [''@schema'', ''@end'']) = 50
   \<and> length (sr_errors (SQONSchema (noisy_stub 60) [''@schema'', ''@end''] 0 allowedTypes_table)) = 60
   \<and> length (errors (parseSchema (noisy_stub 60) (loaded None [''@schema'', ''@end'']))) = 50
   \<and> length (errors (parseValidation (noisy_stub 60) (loaded None [''@schema'', ''@end'']))) = 50
   \<and> length (errors (parseRecords (noisy_stub 60) (loaded None [''@schema'', ''@end'']))) = 50"
  using section_errors_capped [of "loaded None [''@schema'', ''@end'']" "noisy_stub 60"]
  by (simp add: run_defs)

section \<open>The strict directive\<close>

text \<open>
  C8. A line that starts with \<^verbatim>\<open>*STRICT=\<close> and whose value, trimmed and in upper case,
  is neither TRUE nor FALSE records exactly one diagnostic (with the 1-based line
  number), leaves every other field of the parser, the Strict flag among them, as it
  was, and moves the cursor one line on; the scan goes on from there.
\<close>

theorem invalid_strict_value:
  assumes "position st < length (lines st)"
    and "startsWith (lines st ! position st) ''*STRICT=''"
    and "strictValue (lines st ! position st) \<noteq> Some ''TRUE''"
    and "strictValue (lines st ! position st) \<noteq> Some ''FALSE''"
  shows "step P st = Continue (st\<lparr> position := position st + 1,
            errors := errors st @ [\<lparr> line = Some (position st + 1),
               message = ''Invalid *STRICT value: ''
                 @ show_optional (strictValue (lines st ! position st))
                 @ ''. Expected TRUE or FALSE.'' \<rparr>] \<rparr>)
       \<and> parseLines P st = parseLines P (st\<lparr> position := position st + 1,
            errors := errors st @ [\<lparr> line = Some (position st + 1),
               message = ''Invalid *STRICT value: ''
                 @ show_optional (strictValue (lines st ! position st))
                 @ ''. Expected TRUE or FALSE.'' \<rparr>] \<rparr>)"
proof -
  have s: "step P st = Continue (st\<lparr> position := position st + 1,
            errors := errors st @ [\<lparr> line = Some (position st + 1),
               message = ''Invalid *STRICT value: ''
                 @ show_optional (strictValue (lines st ! position st))
                 @ ''. Expected TRUE or FALSE.'' \<rparr>] \<rparr>)"
    using assms(2-4) by (simp add: step_def advance_def push_error_def Let_def)
  show ?thesis
    using s assms(1) by (subst parseLines.simps) simp
qed

theorem invalid_strict_value_witness:
  "position (loaded None [''*STRICT=MAYBE'']) < length (lines (loaded None [''*STRICT=MAYBE'']))
   \<and> startsWith ''*STRICT=MAYBE'' ''*STRICT=''
   \<and> strictValue ''*STRICT=MAYBE'' = Some ''MAYBE''
   \<and> step (section_stub True) (loaded None [''*STRICT=MAYBE''])
       = Continue ((loaded None [''*STRICT=MAYBE''])
           \<lparr> position := 1,
             errors := [\<lparr> line = Some 1,
               message = ''Invalid *STRICT value: MAYBE. Expected TRUE or FALSE.'' \<rparr>] \<rparr>)
   \<and> parse_file (section_stub True) None [''*STRICT=MAYBE'']
       = Some (Inr \<lparr> res_fileRules = \<lparr> Strict = False \<rparr>, res_schema = [],
                     res_validations = [], res_records = [],
                     res_errors =
                       [\<lparr> line = Some 1,
                          message = ''Invalid *STRICT value: MAYBE. Expected TRUE or FALSE.'' \<rparr>,
                        \<lparr> line = None,
                          message = ''Missing required section: '' @ quoted ''@records'' \<rparr>] \<rparr>)"
  using invalid_strict_value [of "loaded None [''*STRICT=MAYBE'']" "section_stub True"]
  by (simp add: run_defs text_defs parseLines.simps)

text \<open>
  C2, as the specification words it: a \<^verbatim>\<open>*STRICT=\<close> line is accepted only while no
  section has been opened, and one that follows a section directive leaves the Strict
  flag alone. The scan has no such guard. In the file below the directive follows a
  complete schema section and still switches the flag on, wherever the section parser
  leaves the cursor (the directive is doubled so that one copy is read under both
  conventions); without the directive the flag stays off.
\<close>

theorem strict_after_section_counterexample:
  "parse_file (section_stub True) None [''@schema'', ''@end'', ''*STRICT=TRUE'', ''*STRICT=TRUE'']
     = Some (Inr \<lparr> res_fileRules = \<lparr> Strict = True \<rparr>, res_schema = [],
                   res_validations = [], res_records = [],
                   res_errors = [\<lparr> line = None,
                      message = ''Missing required section: '' @ quoted ''@records'' \<rparr>] \<rparr>)
   \<and> parse_file (section_stub False) None [''@schema'', ''@end'', ''*STRICT=TRUE'', ''*STRICT=TRUE'']
     = Some (Inr \<lparr> res_fileRules = \<lparr> Strict = True \<rparr>, res_schema = [],
                   res_validations = [], res_records = [],
                   res_errors = [\<lparr> line = None,
                      message = ''Missing required section: '' @ quoted ''@records'' \<rparr>] \<rparr>)
   \<and> parse_file (section_stub True) None [''@schema'', ''@end'']
     = Some (Inr \<lparr> res_fileRules = \<lparr> Strict = False \<rparr>, res_schema = [],
                   res_validations = [], res_records = [],
                   res_errors = [\<lparr> line = None,
                      message = ''Missing required section: '' @ quoted ''@records'' \<rparr>] \<rparr>)"
  by (simp add: run_defs text_defs parseLines.simps)

text \<open>
  C2, amended: a \<^verbatim>\<open>*STRICT=\<close> line is handled wherever the top-level scan meets it,
  whether or not a section has been opened. Value TRUE switches the flag on (under a
  section focus it raises the fatal error instead), value FALSE switches it off, and
  in both cases the cursor moves one line on; what the turn does is the same for every
  content of the section-order stack.
\<close>

theorem strict_directive_any_time:
  assumes "startsWith (lines st ! position st) ''*STRICT=''"
  shows "(strictValue (lines st ! position st) = Some ''TRUE'' \<and> \<not> js_truthy (section' st) \<longrightarrow>
            step P st = Continue (st\<lparr> position := position st + 1,
                                      fileRules := \<lparr> Strict = True \<rparr> \<rparr>))
       \<and> (strictValue (lines st ! position st) = Some ''TRUE'' \<and> js_truthy (section' st) \<longrightarrow>
            step P st = Throw StrictModeEnabled)
       \<and> (strictValue (lines st ! position st) = Some ''FALSE'' \<longrightarrow>
            step P st = Continue (st\<lparr> position := position st + 1,
                                      fileRules := \<lparr> Strict = False \<rparr> \<rparr>))
       \<and> step P (st\<lparr> sectionOrder := opened \<rparr>)
            = (case step P st of
                 Continue st' \<Rightarrow> Continue (st'\<lparr> sectionOrder := opened \<rparr>)
               | Return r \<Rightarrow> Return r
               | Throw e \<Rightarrow> Throw e)"
  using assms by (simp add: step_def advance_def push_error_def Let_def)

theorem strict_directive_any_time_witness:
  "startsWith ''*STRICT=TRUE'' ''*STRICT=''
   \<and> strictValue ''*STRICT=TRUE'' = Some ''TRUE''
   \<and> \<not> js_truthy (section' (loaded None [''*STRICT=TRUE'']))
   \<and> step (section_stub True) ((loaded None [''*STRICT=TRUE''])\<lparr> sectionOrder := [''@schema''] \<rparr>)
       = Continue ((loaded None [''*STRICT=TRUE''])
           \<lparr> position := 1, sectionOrder := [''@schema''], fileRules := \<lparr> Strict = True \<rparr> \<rparr>)
   \<and> js_truthy (section' (loaded (Some ''records'') [''*STRICT=TRUE'']))
   \<and> step (section_stub True) (loaded (Some ''records'') [''*STRICT=TRUE''])
       = Throw StrictModeEnabled
   \<and> startsWith ''*STRICT=false'' ''*STRICT=''
   \<and> strictValue ''*STRICT=false'' = Some ''FALSE''
   \<and> step (section_stub True)
         ((loaded None [''*STRICT=false''])
            \<lparr> sectionOrder := [''@schema''], fileRules := \<lparr> Strict = True \<rparr> \<rparr>)
       = Continue ((loaded None [''*STRICT=false''])
           \<lparr> position := 1, sectionOrder := [''@schema''], fileRules := \<lparr> Strict = False \<rparr> \<rparr>)"
  using strict_directive_any_time
      [of "loaded None [''*STRICT=TRUE'']" "section_stub True" "[''@schema'']"]
    strict_directive_any_time
      [of "loaded (Some ''records'') [''*STRICT=TRUE'']" "section_stub True" "[]"]
    strict_directive_any_time
      [of "(loaded None [''*STRICT=false''])\<lparr> fileRules := \<lparr> Strict = True \<rparr> \<rparr>"
          "section_stub True" "[''@schema'']"]
  by (simp add: run_defs text_defs char_of_def bit_iff_odd)

section \<open>The end of the input\<close>

text \<open>
  C7. When the cursor has left the buffer the scan returns at once. Without a section
  focus the result carries one more error, with no line number, for the missing
  records section exactly when the record list is empty, and nothing else is added:
  the test on the schema accumulator is a truthiness test on an object, which never
  fails, so no error for a missing schema is ever appended. Under a focus nothing is
  added at all.
\<close>

theorem end_of_input_checks:
  "(length (lines st) \<le> position st \<longrightarrow> parseLines P st = Some (Inr (finish st)))
   \<and> (\<not> js_truthy (section' st) \<longrightarrow>
        finish st = (result_of st)\<lparr> res_errors := errors st @
          (if records st = []
           then [\<lparr> line = None, message = ''Missing required section: '' @ quoted ''@records'' \<rparr>]
           else []) \<rparr>)
   \<and> (js_truthy (section' st) \<longrightarrow> finish st = result_of st)"
  by (simp add: parseLines.simps finish_def result_of_def object_truthy_def push_error_def Let_def)

theorem end_of_input_checks_witness:
  "length (lines (loaded None [])) \<le> position (loaded None [])
   \<and> \<not> js_truthy (section' (loaded None []))
   \<and> parseLines (section_stub True) (loaded None [])
       = Some (Inr \<lparr> res_fileRules = \<lparr> Strict = False \<rparr>, res_schema = [],
                     res_validations = [], res_records = [],
                     res_errors = [\<lparr> line = None,
                        message = ''Missing required section: '' @ quoted ''@records'' \<rparr>] \<rparr>)
   \<and> finish ((loaded None [])\<lparr> records := [()] \<rparr>)
       = \<lparr> res_fileRules = \<lparr> Strict = False \<rparr>, res_schema = [],
           res_validations = [], res_records = [()], res_errors = [] \<rparr>
   \<and> js_truthy (section' (loaded (Some ''records'') []))
   \<and> finish (loaded (Some ''records'') [])
       = \<lparr> res_fileRules = \<lparr> Strict = False \<rparr>, res_schema = [],
           res_validations = [], res_records = [], res_errors = [] \<rparr>"
  using end_of_input_checks [of "loaded None []" "section_stub True"]
    end_of_input_checks [of "(loaded None [])\<lparr> records := [()] \<rparr>" "section_stub True"]
    end_of_input_checks [of "loaded (Some ''records'') []" "section_stub True"]
  by (simp add: run_defs text_defs)

section \<open>Construction\<close>

text \<open>
  C3, as the specification words it: exactly one of file path and inline content must
  be given, and construction fails when both are. The constructor rejects only the
  configuration that gives neither; with both it succeeds.
\<close>

theorem construction_with_both_counterexample:
  "(constructor \<lparr> cfg_filePath = Some ''data.sqon'', cfg_section = None,
                  cfg_fileContent = Some ''@schema'' \<rparr> :: error + (unit, unit, unit) sqon)
     = Inr (fresh \<lparr> cfg_filePath = Some ''data.sqon'', cfg_section = None,
                    cfg_fileContent = Some ''@schema'' \<rparr>)"
  by (simp add: constructor_def js_truthy_def)

text \<open>
  C3, amended: construction requires at least one of file path and inline content
  (given and not empty). With neither it fails with the configuration error, before
  anything is parsed; with one of them, or with both, it succeeds and yields a parser
  that has read nothing yet.
\<close>

theorem construction_needs_a_source:
  "((constructor cfg :: error + ('s, 'v, 'd) sqon) = Inl InvalidConfiguration
      \<longleftrightarrow> \<not> js_truthy (cfg_filePath cfg) \<and> \<not> js_truthy (cfg_fileContent cfg))
   \<and> ((\<exists>st :: ('s, 'v, 'd) sqon.
          constructor cfg = Inr st \<and> lines st = [] \<and> position st = 0 \<and> errors st = []
          \<and> parsedSchema st = [] \<and> validations st = [] \<and> records st = []
          \<and> sectionOrder st = [] \<and> fileRules st = \<lparr> Strict = False \<rparr>)
      \<longleftrightarrow> js_truthy (cfg_filePath cfg) \<or> js_truthy (cfg_fileContent cfg))"
  by (auto simp add: constructor_def fresh_def)

theorem construction_needs_a_source_witness:
  "(constructor \<lparr> cfg_filePath = None, cfg_section = None, cfg_fileContent = None \<rparr>
      :: error + (unit, unit, unit) sqon) = Inl InvalidConfiguration
   \<and> (constructor \<lparr> cfg_filePath = Some [], cfg_section = None, cfg_fileContent = Some [] \<rparr>
      :: error + (unit, unit, unit) sqon) = Inl InvalidConfiguration
   \<and> (constructor \<lparr> cfg_filePath = None, cfg_section = None, cfg_fileContent = Some ''@schema'' \<rparr>
      :: error + (unit, unit, unit) sqon) \<noteq> Inl InvalidConfiguration
   \<and> (constructor (file_config None) :: error + (unit, unit, unit) sqon)
      \<noteq> Inl InvalidConfiguration"
  using construction_needs_a_source
      [where ?'s = unit and ?'v = unit and ?'d = unit,
       of "\<lparr> cfg_filePath = None, cfg_section = None, cfg_fileContent = None \<rparr>"]
    construction_needs_a_source
      [where ?'s = unit and ?'v = unit and ?'d = unit,
       of "\<lparr> cfg_filePath = Some [], cfg_section = None, cfg_fileContent = Some [] \<rparr>"]
    construction_needs_a_source
      [where ?'s = unit and ?'v = unit and ?'d = unit,
       of "\<lparr> cfg_filePath = None, cfg_section = None, cfg_fileContent = Some ''@schema'' \<rparr>"]
    construction_needs_a_source
      [where ?'s = unit and ?'v = unit and ?'d = unit, of "file_config None"]
  by (simp add: js_truthy_def file_config_def)

section \<open>The section order\<close>

lemma unfocused: "\<not> js_truthy s \<Longrightarrow> s \<noteq> Some ''schema'' \<and> s \<noteq> Some ''records''"
  by (auto simp: js_truthy_def)

text \<open>
  C4, as the specification words it: opening any section a second time appends an
  error. The check looks the section up in the stack of open sections, and a top-level
  \<^verbatim>\<open>@end\<close> pops that stack. In the file below the schema section is opened, the stack
  is popped, and the schema section is opened again (line 5): no error is recorded for
  the second opening, wherever the section parser leaves the cursor.
\<close>

theorem reopened_section_counterexample:
  "parse_file (section_stub True) None
       [''@schema'', ''@end'', ''@end'', ''@end'', ''@schema'', ''@end'']
     = Some (Inr \<lparr> res_fileRules = \<lparr> Strict = False \<rparr>, res_schema = [],
                   res_validations = [], res_records = [],
                   res_errors = [\<lparr> line = None,
                      message = ''Missing required section: '' @ quoted ''@records'' \<rparr>] \<rparr>)
   \<and> parse_file (section_stub False) None
       [''@schema'', ''@end'', ''@end'', ''@end'', ''@schema'', ''@end'']
     = Some (Inr \<lparr> res_fileRules = \<lparr> Strict = False \<rparr>, res_schema = [],
                   res_validations = [], res_records = [],
                   res_errors = [\<lparr> line = Some 4,
                      message = ''Unexpected '' @ quoted ''@end'' @ '' without an open section.'' \<rparr>,
                    \<lparr> line = None,
                      message = ''Missing required section: '' @ quoted ''@records'' \<rparr>] \<rparr>)"
  by (simp add: run_defs text_defs parseLines.simps)

text \<open>
  C4, amended: the section-order check only appends diagnostics and never aborts the
  scan. Opening the validations or the records section while the schema section is
  not on the stack of open sections appends exactly one ordering error; opening a
  section that is still on that stack (opened and not yet popped by a top-level
  \<^verbatim>\<open>@end\<close>) appends one error saying that it is already opened but not closed; nothing
  else is appended. In every case the section is pushed on the stack and, outside
  focus mode, the turn goes on to the section parser, starting at the next line, and
  the scan continues from the cursor that parser returns.
\<close>

theorem section_order_check:
  assumes "\<not> js_truthy (section' st)"
  shows "errors (checkSectionOrder ''@schema'' st) = errors st @
           (if ''@schema'' \<in> set (sectionOrder st)
            then [\<lparr> line = Some (position st + 1),
                    message = quoted ''@schema'' @ '' is already opened but not closed.'' \<rparr>]
            else [])
       \<and> errors (checkSectionOrder ''@validations'' st) = errors st @
           (if ''@schema'' \<in> set (sectionOrder st) then []
            else [\<lparr> line = Some (position st + 1),
                    message = quoted ''@validations'' @ '' must come after ''
                                @ quoted ''@schema'' @ ''.'' \<rparr>])
           @ (if ''@validations'' \<in> set (sectionOrder st)
              then [\<lparr> line = Some (position st + 1),
                      message = quoted ''@validations'' @ '' is already opened but not closed.'' \<rparr>]
              else [])
       \<and> errors (checkSectionOrder ''@records'' st) = errors st @
           (if ''@schema'' \<in> set (sectionOrder st) then []
            else [\<lparr> line = Some (position st + 1),
                    message = quoted ''@records'' @ '' must come after ''
                                @ quoted ''@schema'' @ ''.'' \<rparr>])
           @ (if ''@records'' \<in> set (sectionOrder st)
              then [\<lparr> line = Some (position st + 1),
                      message = quoted ''@records'' @ '' is already opened but not closed.'' \<rparr>]
              else [])
       \<and> sectionOrder (checkSectionOrder ''@schema'' st) = sectionOrder st @ [''@schema'']
       \<and> sectionOrder (checkSectionOrder ''@validations'' st) = sectionOrder st @ [''@validations'']
       \<and> sectionOrder (checkSectionOrder ''@records'' st) = sectionOrder st @ [''@records'']
       \<and> (lines st ! position st = ''@schema'' \<longrightarrow>
            step P st = Continue (advance (parseSchema P (advance (checkSectionOrder ''@schema'' st)))))
       \<and> (lines st ! position st = ''@validations'' \<longrightarrow>
            step P st = Continue (advance (parseValidation P
                          (advance (checkSectionOrder ''@validations'' st)))))
       \<and> (lines st ! position st = ''@records'' \<longrightarrow>
            step P st = Continue (advance (parseRecords P
                          (advance (checkSectionOrder ''@records'' st)))))"
  using assms unfocused [of "section' st"]
  by (simp add: checkSectionOrder_def push_error_def step_def startsWith_def Let_def)

theorem section_order_check_witness:
  "\<not> js_truthy (section' (loaded None [''@validations'', ''@end'']))
   \<and> errors (checkSectionOrder ''@validations'' (loaded None [''@validations'', ''@end'']))
       = [\<lparr> line = Some 1,
            message = quoted ''@validations'' @ '' must come after '' @ quoted ''@schema'' @ ''.'' \<rparr>]
   \<and> sectionOrder (checkSectionOrder ''@validations'' (loaded None [''@validations'', ''@end'']))
       = [''@validations'']
   \<and> step (section_stub True) (loaded None [''@validations'', ''@end''])
       = Continue ((loaded None [''@validations'', ''@end''])
           \<lparr> position := 3,
             errors := [\<lparr> line = Some 1,
               message = quoted ''@validations'' @ '' must come after ''
                           @ quoted ''@schema'' @ ''.'' \<rparr>],
             sectionOrder := [''@validations''] \<rparr>)
   \<and> parse_file (section_stub True) None [''@validations'', ''@end'']
       = Some (Inr \<lparr> res_fileRules = \<lparr> Strict = False \<rparr>, res_schema = [],
                     res_validations = [], res_records = [],
                     res_errors =
                       [\<lparr> line = Some 1,
                          message = quoted ''@validations'' @ '' must come after ''
                                      @ quoted ''@schema'' @ ''.'' \<rparr>,
                        \<lparr> line = None,
                          message = ''Missing required section: '' @ quoted ''@records'' \<rparr>] \<rparr>)
   \<and> step (section_stub True) ((loaded None [''@schema'', ''@end''])\<lparr> sectionOrder := [''@schema''] \<rparr>)
       = Continue ((loaded None [''@schema'', ''@end''])
           \<lparr> position := 3,
             errors := [\<lparr> line = Some 1,
               message = quoted ''@schema'' @ '' is already opened but not closed.'' \<rparr>],
             sectionOrder := [''@schema'', ''@schema''] \<rparr>)
   \<and> step (section_stub True) (loaded None [''@records'', ''@end''])
       = Continue ((loaded None [''@records'', ''@end''])
           \<lparr> position := 3,
             errors := [\<lparr> line = Some 1,
               message = quoted ''@records'' @ '' must come after ''
                           @ quoted ''@schema'' @ ''.'' \<rparr>],
             sectionOrder := [''@records''] \<rparr>)"
  using section_order_check [of "loaded None [''@validations'', ''@end'']" "section_stub True"]
    section_order_check
      [of "(loaded None [''@schema'', ''@end''])\<lparr> sectionOrder := [''@schema''] \<rparr>"
          "section_stub True"]
    section_order_check [of "loaded None [''@records'', ''@end'']" "section_stub True"]
  by (simp add: run_defs text_defs parseLines.simps)

section \<open>Focus mode\<close>

text \<open>
  C1. Under the focus \<^verbatim>\<open>schema\<close> only the \<^verbatim>\<open>@schema\<close> directive should delegate. The
  branch for \<^verbatim>\<open>@validations\<close> tests the focus against \<^verbatim>\<open>schema\<close> as well: in the file
  below, read under the focus \<^verbatim>\<open>schema\<close>, the first line hands the scan to the parser
  of the validations section, and the call returns what that parser found, with an
  empty schema, without ever reaching the schema section.
\<close>

theorem focus_schema_on_validations:
  "parse_file P (Some ''schema'')
       [''@validations'', ''name: required()'', ''@end'', ''@schema'', ''name: String'', ''@end'']
     = Some (Inr \<lparr> res_fileRules = \<lparr> Strict = False \<rparr>,
                   res_schema = [],
                   res_validations = vr_validations (SQONValidation P
                      [''@validations'', ''name: required()'', ''@end'', ''@schema'',
                       ''name: String'', ''@end''] 1 [] validationKeywords_table),
                   res_records = [],
                   res_errors = take 50 (vr_errors (SQONValidation P
                      [''@validations'', ''name: required()'', ''@end'', ''@schema'',
                       ''name: String'', ''@end''] 1 [] validationKeywords_table)) \<rparr>)"
  by (simp add: parse_file_def file_config_def parse_def constructor_def fresh_def step_def
      advance_def parseValidation_def Let_def text_defs parseLines.simps)

section \<open>The constant tables\<close>

text \<open>
  C5, as the specification words it: the vocabulary of type tags and the
  compatibility matrix name the type of byte arrays \<^verbatim>\<open>byte-array\<close>. The tables of
  the constructor have no such token; they spell it \<^verbatim>\<open>Uint8Array\<close>.
\<close>

theorem vocabulary_token_counterexample:
  "''byte-array'' \<in> set spec_allowedTypes
   \<and> ''byte-array'' \<notin> set allowedTypes_table
   \<and> map_of spec_matrix ''min'' = Some [''Number'', ''NumberArray'', ''byte-array'']
   \<and> map_of validationKeywords_table ''min'' = Some [''Number'', ''NumberArray'', ''Uint8Array'']"
  by (simp add: spec_allowedTypes_def allowedTypes_table_def spec_matrix_def
      validationKeywords_table_def)

lemma keys_code: "distinct (map fst validationKeywords_table)"
  by (simp add: validationKeywords_table_def)

lemma spec_matrix_as_in_code:
  "map (\<lambda>(k, ts). (k, map as_in_code ts)) spec_matrix =
     [(''custom'', [''Any'']), (''default'', [''Any'']), (''isNull'', [''Any'']),
      (''required'', [''Any'']), (''isEqualTo'', [''Any'']), (''isUnique'', [''Any'']),
      (''notNull'', [''Any'']), (''enum'', [''Any'']), (''matchesField'', [''Any'']),
      (''min'', [''Number'', ''NumberArray'', ''Uint8Array'']),
      (''max'', [''Number'', ''NumberArray'', ''Uint8Array'']),
      (''isPositive'', [''Number'', ''NumberArray'', ''Uint8Array'']),
      (''isNegative'', [''Number'', ''NumberArray'', ''Uint8Array'']),
      (''minLength'', [''String'', ''StringArray'', ''ObjectArray'', ''Array'', ''Object'',
                      ''NumberArray'', ''Uint8Array'']),
      (''maxLength'', [''String'', ''StringArray'', ''ObjectArray'', ''Array'', ''Object'',
                      ''NumberArray'', ''Uint8Array'']),
      (''maxSize'', [''Binary'', ''Array'', ''StringArray'', ''NumberArray'', ''ObjectArray'',
                    ''Object'', ''Uint8Array'']),
      (''isDate'', [''Date'']), (''minDate'', [''Date'']), (''maxDate'', [''Date'']),
      (''hasProperties'', [''Object'', ''ObjectArray'']),
      (''pattern'', [''String'']), (''isURL'', [''String'']), (''isAlpha'', [''String'']),
      (''isNumeric'', [''String'']), (''isAlphanumeric'', [''String'']), (''isIP'', [''String'']),
      (''trim'', [''String'']), (''lowercase'', [''String'']), (''uppercase'', [''String'']),
      (''isEmail'', [''String'', ''StringArray'']),
      (''isInteger'', [''Number'']), (''isFloat'', [''Number'']),
      (''isBoolean'', [''Boolean''])]"
  by (simp add: spec_matrix_def as_in_code_def)

lemma keys_spec: "distinct (map fst (map (\<lambda>(k, ts). (k, map as_in_code ts)) spec_matrix))"
  unfolding spec_matrix_as_in_code by simp

lemma same_entries:
  "set validationKeywords_table = set (map (\<lambda>(k, ts). (k, map as_in_code ts)) spec_matrix)"
  unfolding spec_matrix_as_in_code validationKeywords_table_def by (simp add: insert_commute)

text \<open>
  C5, amended: with \<^verbatim>\<open>Uint8Array\<close> in the place of \<^verbatim>\<open>byte-array\<close>, the vocabulary of
  the constructor is exactly the described set of 20 case-sensitive tokens (its list
  holds 21 entries, \<^verbatim>\<open>Binary\<close> twice), and its matrix maps exactly the 33 described
  keywords, each to the described list of type tags. Every parser is built with these
  two tables.
\<close>

theorem tables_as_described:
  "set allowedTypes_table = set (map as_in_code spec_allowedTypes)
   \<and> card (set allowedTypes_table) = 20
   \<and> length allowedTypes_table = 21
   \<and> ''number'' \<notin> set allowedTypes_table
   \<and> map_of validationKeywords_table = map_of (map (\<lambda>(k, ts). (k, map as_in_code ts)) spec_matrix)
   \<and> distinct (map fst validationKeywords_table)
   \<and> length validationKeywords_table = 33
   \<and> allowedTypes (fresh cfg) = allowedTypes_table
   \<and> validationKeywords (fresh cfg) = validationKeywords_table"
proof -
  have v: "set allowedTypes_table = set (map as_in_code spec_allowedTypes)"
    by (simp add: allowedTypes_table_def spec_allowedTypes_def as_in_code_def insert_commute)
  have c: "card (set allowedTypes_table) = 20"
    unfolding card_set by (simp add: allowedTypes_table_def)
  have n: "''number'' \<notin> set allowedTypes_table \<and> length allowedTypes_table = 21"
    by (simp add: allowedTypes_table_def)
  have m: "map_of validationKeywords_table
             = map_of (map (\<lambda>(k, ts). (k, map as_in_code ts)) spec_matrix)"
    using keys_code keys_spec same_entries by (simp add: map_of_inject_set)
  have l: "length validationKeywords_table = 33"
    by (simp add: validationKeywords_table_def)
  show ?thesis
    using v c n m l keys_code by (simp add: fresh_def)
qed

section \<open>Renumbering\<close>

text \<open>
  C6. Every ordinal marker between \<^verbatim>\<open>@records\<close> and its \<^verbatim>\<open>@end\<close> should be rewritten
  to \<^verbatim>\<open>#0\<close>, \<^verbatim>\<open>#1\<close>, ... in order. The loop recognises a marker line on the trimmed
  line but rewrites with a pattern anchored at the start of the untrimmed line, and it
  counts the line whether or not anything was rewritten: in the text below the
  indented marker \<^verbatim>\<open>#7\<close> is left as it is and the next one becomes \<^verbatim>\<open>#1\<close>.
\<close>

theorem redoc_indented_marker:
  "redoc (Some (''@records'' @ [CHR 0x0A] @ ''  #7 -> id(1);'' @ [CHR 0x0A]
                 @ ''#3 -> id(2);'' @ [CHR 0x0A] @ ''@end'')) fileText
     = Returned (''@records'' @ [CHR 0x0A] @ ''  #7 -> id(1);'' @ [CHR 0x0A]
                 @ ''#1 -> id(2);'' @ [CHR 0x0A] @ ''@end'')"
  by (simp add: redoc_def updatedContent_def replace_marker_def text_defs isDigit_def
      show_nat.simps digit_char_def Let_def)

subsection \<open>Digits, markers and lines\<close>

lemma isDigit_digit_char: "d < 10 \<Longrightarrow> isDigit (digit_char d)"
proof -
  assume "d < 10"
  then have "d \<in> set [0..<10]" by simp
  then show ?thesis
    by (simp add: upt_rec digit_char_def isDigit_def) (auto simp: digit_char_def isDigit_def)
qed

lemma show_nat_digits: "\<forall>c \<in> set (show_nat n). isDigit c"
proof (induction n rule: show_nat.induct)
  case (1 n)
  show ?case
  proof (cases "n < 10")
    case True
    then show ?thesis by (subst show_nat.simps) (simp add: isDigit_digit_char)
  next
    case False
    then show ?thesis using 1
      by (subst show_nat.simps) (simp add: isDigit_digit_char)
  qed
qed

lemma show_nat_nonempty: "show_nat n \<noteq> []"
  by (subst show_nat.simps) simp

lemma dropWhile_snoc_keeps: "\<not> P c \<Longrightarrow> \<exists>ys. dropWhile P (xs @ [c]) = ys @ [c]"
  by (induction xs) auto

lemma trim_head: "\<not> isWhiteSpace c \<Longrightarrow> \<exists>r. trim (c # s) = c # r"
proof -
  assume c: "\<not> isWhiteSpace c"
  obtain ys where "dropWhile isWhiteSpace (rev s @ [c]) = ys @ [c]"
    using dropWhile_snoc_keeps [of isWhiteSpace c "rev s"] c by blast
  then show ?thesis using c by (simp add: trim_def)
qed

lemma hash_not_space: "\<not> isWhiteSpace (CHR ''#'')"
  by (simp add: isWhiteSpace_def)

lemma startsWith_hash: "startsWith t ''#'' \<longleftrightarrow> (\<exists>r. t = CHR ''#'' # r)"
  by (cases t) (auto simp: startsWith_def)

lemma replace_marker_cases:
  "replace_marker ln n = ln \<or> (\<exists>r. replace_marker ln n = CHR ''#'' # r)"
  by (auto simp: replace_marker_def split: list.splits)

lemma marker_stays_marker:
  assumes "startsWith (trim ln) ''#''"
  shows "startsWith (trim (replace_marker ln n)) ''#''"
proof -
  from replace_marker_cases [of ln n] show ?thesis
  proof
    assume "replace_marker ln n = ln" with assms show ?thesis by simp
  next
    assume "\<exists>r. replace_marker ln n = CHR ''#'' # r"
    then obtain r where r: "replace_marker ln n = CHR ''#'' # r" by blast
    obtain r' where "trim (CHR ''#'' # r) = CHR ''#'' # r'"
      using trim_head [OF hash_not_space] by blast
    with r show ?thesis by (simp add: startsWith_hash)
  qed
qed

lemma marker_not_directive:
  "startsWith t ''#'' \<Longrightarrow> t \<noteq> ''@records'' \<and> t \<noteq> ''@end''"
  by (auto simp: startsWith_hash)

lemma takeWhile_after_dropWhile: "takeWhile P (dropWhile P xs) = []"
  by (induction xs) auto

lemma replace_marker_idem: "replace_marker (replace_marker ln n) n = replace_marker ln n"
proof (cases ln)
  case Nil
  then show ?thesis by (simp add: replace_marker_def)
next
  case (Cons c rest)
  show ?thesis
  proof (cases "c = CHR ''#'' \<and> takeWhile isDigit rest \<noteq> []")
    case False
    then show ?thesis using Cons by (auto simp: replace_marker_def)
  next
    case True
    have t: "takeWhile isDigit (show_nat n @ dropWhile isDigit rest) = show_nat n"
      using show_nat_digits [of n] by (simp add: takeWhile_append2 takeWhile_after_dropWhile)
    have d: "dropWhile isDigit (show_nat n @ dropWhile isDigit rest) = dropWhile isDigit rest"
      using show_nat_digits [of n] by (simp add: dropWhile_append2)
    from True Cons show ?thesis
      by (simp add: replace_marker_def t d show_nat_nonempty)
  qed
qed

lemma renumber_idem: "renumber b n (renumber b n ls) = renumber b n ls"
proof (induction ls arbitrary: b n)
  case Nil
  then show ?case by simp
next
  case (Cons ln ls)
  show ?case
  proof (cases "b \<and> startsWith (trim ln) ''#''")
    case True
    then have m: "startsWith (trim (replace_marker ln n)) ''#''"
      by (simp add: marker_stays_marker)
    from True m show ?thesis
      using marker_not_directive [of "trim ln"]
        marker_not_directive [of "trim (replace_marker ln n)"]
      by (simp add: Cons.IH replace_marker_idem)
  next
    case False
    then show ?thesis by (auto simp: Cons.IH)
  qed
qed


lemma split_on_nonempty: "split_on c s \<noteq> []"
  by (induction s) (auto split: list.splits)

lemma split_on_no_sep: "\<forall>p \<in> set (split_on c s). c \<notin> set p"
  by (induction s) (auto split: list.splits)

lemma split_on_piece: "c \<notin> set p \<Longrightarrow> split_on c p = [p]"
  by (induction p) auto

lemma split_on_append: "c \<notin> set p \<Longrightarrow> split_on c (p @ c # rest) = p # split_on c rest"
  by (induction p) auto

lemma split_join:
  "ls \<noteq> [] \<Longrightarrow> \<forall>p \<in> set ls. c \<notin> set p \<Longrightarrow> split_on c (join_with c ls) = ls"
proof (induction c ls rule: join_with.induct)
  case (1 c)
  then show ?case by simp
next
  case (2 c p)
  then show ?case by (simp add: split_on_piece)
next
  case (3 c p q ps)
  then show ?case by (simp add: split_on_append)
qed

lemma join_split: "join_with c (split_on c s) = s"
proof (induction s)
  case Nil
  then show ?case by simp
next
  case (Cons x xs)
  obtain p ps where ps: "split_on c xs = p # ps"
    using split_on_nonempty [of c xs] by (cases "split_on c xs") auto
  show ?case
  proof (cases "x = c")
    case True
    with Cons ps show ?thesis by simp
  next
    case False
    with Cons ps show ?thesis by (cases ps) auto
  qed
qed

lemma length_renumber: "length (renumber b n ls) = length ls"
  by (induction ls arbitrary: b n) auto

lemma digit_not_newline: "isDigit c \<Longrightarrow> c \<noteq> CHR 0x0A"
  by (auto simp: isDigit_def)

lemma replace_marker_no_newline:
  assumes "CHR 0x0A \<notin> set ln"
  shows "CHR 0x0A \<notin> set (replace_marker ln n)"
proof (cases ln)
  case Nil
  then show ?thesis by (simp add: replace_marker_def)
next
  case (Cons c rest)
  have "CHR 0x0A \<notin> set (show_nat n)"
    using show_nat_digits [of n] digit_not_newline by blast
  moreover have "CHR 0x0A \<notin> set (dropWhile isDigit rest)"
    using assms Cons set_dropWhileD [of "CHR 0x0A" isDigit rest] by auto
  ultimately show ?thesis
    using assms Cons by (auto simp: replace_marker_def)
qed

lemma renumber_no_newline:
  "\<forall>p \<in> set ls. CHR 0x0A \<notin> set p \<Longrightarrow> \<forall>p \<in> set (renumber b n ls). CHR 0x0A \<notin> set p"
  by (induction ls arbitrary: b n) (auto simp: replace_marker_no_newline)

lemma updatedContent_idem: "updatedContent (updatedContent src) = updatedContent src"
proof -
  let ?ls = "renumber False 0 (split_on (CHR 0x0A) src)"
  have ne: "?ls \<noteq> []"
    using length_renumber [of False 0 "split_on (CHR 0x0A) src"] split_on_nonempty [of "CHR 0x0A" src]
    by (metis length_0_conv)
  have nn: "\<forall>p \<in> set ?ls. CHR 0x0A \<notin> set p"
    by (rule renumber_no_newline) (rule split_on_no_sep)
  have "split_on (CHR 0x0A) (join_with (CHR 0x0A) ?ls) = ?ls"
    using ne nn by (rule split_join)
  then show ?thesis by (simp add: updatedContent_def renumber_idem)
qed

lemma join_with_empty: "join_with c ls = [] \<Longrightarrow> ls = [] \<or> ls = [[]]"
  by (induction c ls rule: join_with.induct) auto

lemma renumber_outside_single: "renumber False n [ln] = [ln]"
  by simp

lemma updatedContent_empty: "updatedContent src = [] \<longleftrightarrow> src = []"
proof
  assume "src = []" then show "updatedContent src = []" by (simp add: updatedContent_def)
next
  assume e: "updatedContent src = []"
  let ?ps = "split_on (CHR 0x0A) src"
  have "renumber False 0 ?ps = [] \<or> renumber False 0 ?ps = [[]]"
    using e join_with_empty by (simp add: updatedContent_def)
  moreover have "renumber False 0 ?ps \<noteq> []"
    using length_renumber [of False 0 ?ps] split_on_nonempty [of "CHR 0x0A" src]
    by (metis length_0_conv)
  ultimately have r: "renumber False 0 ?ps = [[]]" by blast
  then have "length ?ps = 1" using length_renumber [of False 0 ?ps] by simp
  then obtain p where p: "?ps = [p]" by (cases ?ps) auto
  with r have "p = []" by (simp split: if_splits)
  with p have "join_with (CHR 0x0A) ?ps = []" by simp
  then show "src = []" by (simp add: join_split)
qed

text \<open>
  C10. Renumbering is idempotent: the text that renumbering produces is a fixed point
  of renumbering, for every input text. For every text that the inline call returns
  (every non-empty one; the empty text is falsy and takes the file branch), the
  inline call on the returned text returns that same text again.
\<close>

theorem redoc_idempotent:
  "updatedContent (updatedContent src) = updatedContent src
   \<and> (src \<noteq> [] \<longrightarrow>
        redoc (Some src) fileText = Returned (updatedContent src)
        \<and> redoc (Some (updatedContent src)) fileText2 = Returned (updatedContent src))"
  by (simp add: updatedContent_idem redoc_def js_truthy_def updatedContent_empty Let_def)

theorem redoc_idempotent_witness:
  "''@records'' @ [CHR 0x0A] @ ''#7 -> id(1);'' @ [CHR 0x0A] @ ''#3 -> id(2);'' @ [CHR 0x0A] @ ''@end''
      \<noteq> []
   \<and> redoc (Some (''@records'' @ [CHR 0x0A] @ ''#7 -> id(1);'' @ [CHR 0x0A]
                   @ ''#3 -> id(2);'' @ [CHR 0x0A] @ ''@end'')) []
       = Returned (''@records'' @ [CHR 0x0A] @ ''#0 -> id(1);'' @ [CHR 0x0A]
                   @ ''#1 -> id(2);'' @ [CHR 0x0A] @ ''@end'')
   \<and> redoc (Some (''@records'' @ [CHR 0x0A] @ ''#0 -> id(1);'' @ [CHR 0x0A]
                   @ ''#1 -> id(2);'' @ [CHR 0x0A] @ ''@end'')) []
       = Returned (''@records'' @ [CHR 0x0A] @ ''#0 -> id(1);'' @ [CHR 0x0A]
                   @ ''#1 -> id(2);'' @ [CHR 0x0A] @ ''@end'')"
  using redoc_idempotent [of "''@records'' @ [CHR 0x0A] @ ''#7 -> id(1);'' @ [CHR 0x0A]
                   @ ''#3 -> id(2);'' @ [CHR 0x0A] @ ''@end''" "[]" "[]"]
  by (simp add: redoc_def updatedContent_def replace_marker_def text_defs isDigit_def
      show_nat.simps digit_char_def Let_def)

end
